theory Spec2Isabelle
  imports Main "HOL-Library.Word"
begin

unbundle bit_operations_syntax

section \<open>arch/arm64/kernel/smp.c: SMP initialisation and IPI support\<close>

text \<open>
  A shallow embedding of the secondary-core bring-up, the hotplug pre-check, the
  enumeration of cores and the IPI paths of \<^verbatim>\<open>arch/arm64/kernel/smp.c\<close>.
  Every C function keeps its name; a leading \<^verbatim>\<open>__\<close> is written \<^verbatim>\<open>arch_\<close>
  (\<^verbatim>\<open>__cpu_up\<close> is \<open>arch_cpu_up\<close>, \<^verbatim>\<open>__cpu_disable\<close> is \<open>arch_cpu_disable\<close>) and the
  global \<^verbatim>\<open>__early_cpu_boot_status\<close> is \<open>early_cpu_boot_status\<close>.
  The kernel's globals are the fields of one record that every function takes and
  returns; \<^verbatim>\<open>smp_processor_id()\<close> is an explicit argument; what is printed and
  every call into code outside the file is appended to the field \<open>klog\<close>, oldest
  first, so that order and multiplicity of calls can be stated.
\<close>

subsection \<open>Build configuration\<close>

text \<open>
  The file is compiled under preprocessor switches, and \<^verbatim>\<open>NR_CPUS\<close> and
  \<^verbatim>\<open>THREAD_SIZE\<close> are configuration constants. They are the fields of \<open>kconfig\<close>.
\<close>

record kconfig =
  NR_CPUS :: nat
  THREAD_SIZE :: nat
  CONFIG_HOTPLUG_CPU :: bool
  CONFIG_ARM64_52BIT_VA :: bool
  CONFIG_GENERIC_CLOCKEVENTS_BROADCAST :: bool
  CONFIG_IRQ_WORK :: bool

subsection \<open>Constants of the headers\<close>

type_synonym u64 = "64 word"
type_synonym u32 = "32 word"
type_synonym s32 = "32 word"

text \<open>errno values (\<^verbatim>\<open>include/uapi/asm-generic/errno*.h\<close>).\<close>

definition EIO :: int where "EIO = 5"
definition ENOSYS :: int where "ENOSYS = 38"
definition EOPNOTSUPP :: int where "EOPNOTSUPP = 95"

text \<open>
  Values of \<^verbatim>\<open>secondary_data.status\<close> (\<^verbatim>\<open>asm/smp.h\<close>):
  \<^verbatim>\<open>CPU_MMU_OFF (-1)\<close>, \<^verbatim>\<open>CPU_BOOT_SUCCESS (0)\<close>, \<^verbatim>\<open>CPU_KILL_ME (1)\<close>,
  \<^verbatim>\<open>CPU_STUCK_IN_KERNEL (2)\<close>, \<^verbatim>\<open>CPU_PANIC_KERNEL (3)\<close>.
\<close>

definition CPU_MMU_OFF :: int where "CPU_MMU_OFF = - 1"
definition CPU_BOOT_SUCCESS :: int where "CPU_BOOT_SUCCESS = 0"
definition CPU_KILL_ME :: int where "CPU_KILL_ME = 1"
definition CPU_STUCK_IN_KERNEL :: int where "CPU_STUCK_IN_KERNEL = 2"
definition CPU_PANIC_KERNEL :: int where "CPU_PANIC_KERNEL = 3"

text \<open>
  \<^verbatim>\<open>asm/cputype.h\<close>: \<^verbatim>\<open>INVALID_HWID\<close> is \<^verbatim>\<open>ULONG_MAX\<close> and
  \<^verbatim>\<open>MPIDR_HWID_BITMASK\<close> is \<^verbatim>\<open>0xff00ffffff\<close>. \<^verbatim>\<open>ACPI_MADT_ENABLED\<close> is bit 0
  of a MADT entry's flags.
\<close>

definition INVALID_HWID :: u64 where "INVALID_HWID = - 1"
definition MPIDR_HWID_BITMASK :: u64 where "MPIDR_HWID_BITMASK = 0xff00ffffff"
definition ACPI_MADT_ENABLED :: u32 where "ACPI_MADT_ENABLED = 1"

text \<open>\<^verbatim>\<open>enum ipi_msg_type\<close>, as the \<^verbatim>\<open>int ipinr\<close> that \<^verbatim>\<open>handle_IPI\<close> receives.\<close>

definition IPI_RESCHEDULE :: u32 where "IPI_RESCHEDULE = 0"
definition IPI_CALL_FUNC :: u32 where "IPI_CALL_FUNC = 1"
definition IPI_CPU_STOP :: u32 where "IPI_CPU_STOP = 2"
definition IPI_TIMER :: u32 where "IPI_TIMER = 3"
definition IPI_IRQ_WORK :: u32 where "IPI_IRQ_WORK = 4"
definition IPI_WAKEUP :: u32 where "IPI_WAKEUP = 5"
definition IPI_CPU_BACKTRACE :: u32 where "IPI_CPU_BACKTRACE = 6"

text \<open>
  \<^verbatim>\<open>NR_IPI\<close> (\<^verbatim>\<open>asm/hardirq.h\<close>) is the length of \<^verbatim>\<open>ipi_types\<close>, whose
  initialiser has the seven entries of the enumeration.
\<close>

definition NR_IPI :: nat where "NR_IPI = 7"

subsection \<open>Data\<close>

text \<open>
  \<^verbatim>\<open>struct cpu_operations\<close> (\<^verbatim>\<open>asm/cpu_ops.h\<close>): the members this file calls on
  the paths below. A member is a function pointer: \<open>None\<close> is \<^verbatim>\<open>NULL\<close>. The platform's
  methods are outside the file; a method is its return value.
\<close>

record cpu_operations =
  cpu_boot :: "(nat \<Rightarrow> int) option"
  cpu_disable :: "(nat \<Rightarrow> int) option"
  cpu_die :: "(nat \<Rightarrow> unit) option"
  cpu_kill :: "(nat \<Rightarrow> int) option"

record task_struct =
  task_cpu :: nat
  task_stack_page :: u64

text \<open>\<^verbatim>\<open>struct secondary_data\<close>: a pointer is \<open>None\<close> or the address \<open>0\<close> when \<^verbatim>\<open>NULL\<close>.\<close>

record secondary_data_t =
  task :: "task_struct option"
  stack :: u64
  status :: int

record pt_regs =
  regs_sp :: u64
  regs_pc :: u64

datatype system_states =
  SYSTEM_BOOTING | SYSTEM_RUNNING | SYSTEM_HALT | SYSTEM_POWER_OFF | SYSTEM_RESTART

text \<open>What the file prints and what it calls outside itself.\<close>

datatype event =
    Pr_failed_to_boot nat int
  | Pr_failed_to_come_online nat
  | Pr_no_52bit_va nat
  | Pr_unknown_state nat int
  | Pr_died_during_early_boot nat
  | Pr_may_not_have_shut_down_cleanly nat
  | Pr_stuck_in_kernel nat
  | Panic_unsupported_configuration nat
  | Flush_dcache_secondary_data
  | Irq_migrate_all_off_this_cpu nat
  | Pr_skipping_disabled u64
  | Pr_skipping_invalid u64
  | Pr_duplicate_mpidr u64
  | Pr_duplicate_boot_mpidr u64
  | Pr_missing_reg
  | Pr_invalid_reg
  | Pr_cpu_logical_map u64
  | Early_map_cpu_to_node nat
  | Acpi_set_mailbox_entry nat
  | Trace_ipi_raise "nat set" u32
  | Smp_cross_call "nat set" u32
  | Trace_ipi_entry u32
  | Trace_ipi_exit u32
  | Pr_unknown_ipi nat u32
  | Pr_stopping nat
  | Show_regs pt_regs
  | Dump_stack nat
  | Dump_stack_minidump u64
  | Flush_cache_all
  | Local_irq_disable nat
  | Pr_backtrace_current nat
  | Pr_sending_ipi
  | Pr_ipi_backtrace nat

text \<open>
  The globals. A \<^verbatim>\<open>cpumask\<close> is the set of its set bits; a per-cpu variable and an
  array indexed by cpu is a function of the cpu. \<^verbatim>\<open>cpus_stuck_in_kernel\<close> is a C
  \<^verbatim>\<open>int\<close>: a 32-bit word (\<open>s32\<close>) whose value is read by \<open>sint\<close>, so that
  \<^verbatim>\<open>cpus_stuck_in_kernel++\<close> at \<^verbatim>\<open>INT_MAX\<close> wraps to \<^verbatim>\<open>INT_MIN\<close>, as the kernel
  is compiled (\<^verbatim>\<open>-fno-strict-overflow\<close>). \<^verbatim>\<open>nr_cpu_ids\<close> is the run-time number
  of core ids, at most \<^verbatim>\<open>NR_CPUS\<close>.
\<close>

record kernel =
  secondary_data :: secondary_data_t
  early_cpu_boot_status :: int
  cpus_stuck_in_kernel :: s32
  va52mismatch :: bool
  nr_cpu_ids :: nat
  cpu_possible_mask :: "nat set"
  cpu_online_mask :: "nat set"
  cpu_active_mask :: "nat set"
  cpu_logical_map :: "nat \<Rightarrow> u64"
  bootcpu_valid :: bool
  cpu_count :: nat
  pending_ipi :: "nat \<Rightarrow> bool"
  backtrace_mask :: "nat set"
  backtrace_flag :: u64
  ipi_irqs :: "nat \<Rightarrow> nat \<Rightarrow> u32"
  regs_before_stop :: "nat \<Rightarrow> pt_regs"
  irq_regs :: "nat \<Rightarrow> pt_regs option"
  system_state :: system_states
  klog :: "event list"

definition pr :: "event list \<Rightarrow> kernel \<Rightarrow> kernel" where
  "pr es s = s\<lparr>klog := klog s @ es\<rparr>"

subsection \<open>Enumeration of the cores\<close>

text \<open>
  \<^verbatim>\<open>is_mpidr_duplicate\<close>: the loop
  \<^verbatim>\<open>for (i = 1; (i < cpu) && (i < NR_CPUS); i++)\<close> from index \<open>i\<close> on.
\<close>

function is_mpidr_duplicate_from :: "kconfig \<Rightarrow> kernel \<Rightarrow> nat \<Rightarrow> nat \<Rightarrow> u64 \<Rightarrow> bool" where
  "is_mpidr_duplicate_from C s i cpu hwid =
     (if i < cpu \<and> i < NR_CPUS C
      then (if cpu_logical_map s i = hwid then True
            else is_mpidr_duplicate_from C s (Suc i) cpu hwid)
      else False)"
  by pat_completeness auto
termination
  by (relation "measure (\<lambda>(C, s, i, cpu, hwid). cpu - i)") auto

declare is_mpidr_duplicate_from.simps [simp del]

definition is_mpidr_duplicate :: "kconfig \<Rightarrow> kernel \<Rightarrow> nat \<Rightarrow> u64 \<Rightarrow> bool" where
  "is_mpidr_duplicate C s cpu hwid = is_mpidr_duplicate_from C s 1 cpu hwid"

text \<open>
  A MADT GICC entry (\<^verbatim>\<open>struct acpi_madt_generic_interrupt\<close>) and
  \<^verbatim>\<open>acpi_map_gic_cpu_interface\<close>. The node id passed to
  \<^verbatim>\<open>early_map_cpu_to_node\<close> comes from a lookup outside the file; the call is
  logged with its cpu.
\<close>

record acpi_madt_generic_interrupt =
  arm_mpidr :: u64
  flags :: u32

definition acpi_map_gic_cpu_interface ::
    "kconfig \<Rightarrow> acpi_madt_generic_interrupt \<Rightarrow> kernel \<Rightarrow> kernel" where
  "acpi_map_gic_cpu_interface C processor s =
     (let hwid = arm_mpidr processor in
      if flags processor AND ACPI_MADT_ENABLED = 0 then pr [Pr_skipping_disabled hwid] s
      else if hwid AND NOT MPIDR_HWID_BITMASK \<noteq> 0 \<or> hwid = INVALID_HWID
        then pr [Pr_skipping_invalid hwid] s
      else if is_mpidr_duplicate C s (cpu_count s) hwid then pr [Pr_duplicate_mpidr hwid] s
      else if cpu_logical_map s 0 = hwid then
        (if bootcpu_valid s then pr [Pr_duplicate_boot_mpidr hwid] s
         else pr [Early_map_cpu_to_node 0] (s\<lparr>bootcpu_valid := True\<rparr>))
      else if NR_CPUS C \<le> cpu_count s then s
      else pr [Acpi_set_mailbox_entry (cpu_count s), Early_map_cpu_to_node (cpu_count s)]
             (s\<lparr>cpu_logical_map := (cpu_logical_map s)(cpu_count s := hwid),
                cpu_count := cpu_count s + 1\<rparr>))"

text \<open>
  Modelled from the spec: the firmware-table walker \<^verbatim>\<open>acpi_table_parse_madt\<close> is not
  in the file; it "consumes an ordered sequence of platform records", handing each
  record in order to the handler.
\<close>

fun acpi_table_parse_madt ::
    "kconfig \<Rightarrow> acpi_madt_generic_interrupt list \<Rightarrow> kernel \<Rightarrow> kernel" where
  "acpi_table_parse_madt C [] s = s"
| "acpi_table_parse_madt C (p # ps) s =
     acpi_table_parse_madt C ps (acpi_map_gic_cpu_interface C p s)"

text \<open>
  A device-tree cpu node: \<open>reg\<close> is the number \<^verbatim>\<open>of_read_number\<close> reads from the
  \<^verbatim>\<open>reg\<close> property, \<open>None\<close> when the property is missing. \<^verbatim>\<open>of_get_cpu_mpidr\<close>
  returns the hardware id with what it printed.
\<close>

record device_node =
  reg :: "u64 option"

definition of_get_cpu_mpidr :: "device_node \<Rightarrow> u64 \<times> event list" where
  "of_get_cpu_mpidr dn =
     (case reg dn of
        None \<Rightarrow> (INVALID_HWID, [Pr_missing_reg])
      | Some hwid \<Rightarrow>
          if hwid AND NOT MPIDR_HWID_BITMASK \<noteq> 0 then (INVALID_HWID, [Pr_invalid_reg])
          else (hwid, []))"

text \<open>
  \<^verbatim>\<open>of_parse_and_init_cpus\<close>: the \<^verbatim>\<open>while\<close> loop over the cpu nodes that
  \<^verbatim>\<open>of_find_node_by_type\<close> yields, in order. The label \<^verbatim>\<open>next\<close> increments
  \<^verbatim>\<open>cpu_count\<close>; the boot cpu's first match leaves by \<^verbatim>\<open>continue\<close>, past it.
\<close>

fun of_parse_and_init_cpus :: "kconfig \<Rightarrow> device_node list \<Rightarrow> kernel \<Rightarrow> kernel" where
  "of_parse_and_init_cpus C [] s = s"
| "of_parse_and_init_cpus C (dn # dns) s =
     of_parse_and_init_cpus C dns
       (let (hwid, msgs) = of_get_cpu_mpidr dn;
            s0 = pr msgs s;
            next = (\<lambda>t. t\<lparr>cpu_count := cpu_count t + 1\<rparr>)
        in if hwid = INVALID_HWID then next s0
           else if is_mpidr_duplicate C s0 (cpu_count s0) hwid
             then next (pr [Pr_duplicate_mpidr hwid] s0)
           else if hwid = cpu_logical_map s0 0 then
             (if bootcpu_valid s0 then next (pr [Pr_duplicate_boot_mpidr hwid] s0)
              else pr [Early_map_cpu_to_node 0] (s0\<lparr>bootcpu_valid := True\<rparr>))
           else if NR_CPUS C \<le> cpu_count s0 then next s0
           else next (pr [Pr_cpu_logical_map hwid, Early_map_cpu_to_node (cpu_count s0)]
                        (s0\<lparr>cpu_logical_map := (cpu_logical_map s0)(cpu_count s0 := hwid)\<rparr>)))"

subsection \<open>Bringing a secondary core up\<close>

text \<open>
  What the platform and the rest of the kernel supply. \<^verbatim>\<open>cpu_ops\<close> is the array
  of \<^verbatim>\<open>asm/cpu_ops.h\<close>, written only by \<^verbatim>\<open>cpu_read_ops\<close> while the cores are
  enumerated and read by the paths below; an entry is \<open>None\<close> when it is \<^verbatim>\<open>NULL\<close>.
  The other fields are code outside the file that acts on the shared state: what the
  released core and the passing time do to the globals until
  \<^verbatim>\<open>wait_for_completion_timeout\<close> returns, the handlers that \<^verbatim>\<open>handle_IPI\<close>
  delegates to, and what the other cores do during one \<^verbatim>\<open>mdelay(1)\<close>. Each is an
  arbitrary function of the state.
\<close>

record externals =
  cpu_ops :: "nat \<Rightarrow> cpu_operations option"
  wait_for_completion_timeout :: "kernel \<Rightarrow> kernel"
  scheduler_ipi :: "kernel \<Rightarrow> kernel"
  generic_smp_call_function_interrupt :: "kernel \<Rightarrow> kernel"
  tick_receive_broadcast :: "kernel \<Rightarrow> kernel"
  irq_work_run :: "kernel \<Rightarrow> kernel"
  irq_enter :: "kernel \<Rightarrow> kernel"
  irq_exit :: "kernel \<Rightarrow> kernel"
  mdelay :: "kernel \<Rightarrow> kernel"

text \<open>
  How a call ends: it returns a value, it calls \<^verbatim>\<open>panic\<close>, or it dereferences a
  \<^verbatim>\<open>NULL\<close> entry of \<^verbatim>\<open>cpu_ops\<close>. Each carries the state reached. \<open>returned\<close>
  is the value of a call that returned, \<open>panicked\<close> holds of one that called
  \<^verbatim>\<open>panic\<close>.
\<close>

datatype outcome = Returns int kernel | Panics kernel | Null_deref kernel

fun state_of :: "outcome \<Rightarrow> kernel" where
  "state_of (Returns r s) = s"
| "state_of (Panics s) = s"
| "state_of (Null_deref s) = s"

fun returned :: "outcome \<Rightarrow> int option" where
  "returned (Returns r s) = Some r"
| "returned (Panics s) = None"
| "returned (Null_deref s) = None"

fun panicked :: "outcome \<Rightarrow> bool" where
  "panicked (Returns r s) = False"
| "panicked (Panics s) = True"
| "panicked (Null_deref s) = False"

definition cpu_online :: "kernel \<Rightarrow> nat \<Rightarrow> bool" where
  "cpu_online s cpu = (cpu \<in> cpu_online_mask s)"

definition set_cpu_online :: "nat \<Rightarrow> bool \<Rightarrow> kernel \<Rightarrow> kernel" where
  "set_cpu_online cpu online s =
     (if online then s\<lparr>cpu_online_mask := insert cpu (cpu_online_mask s)\<rparr>
      else s\<lparr>cpu_online_mask := cpu_online_mask s - {cpu}\<rparr>)"

definition set_cpu_active :: "nat \<Rightarrow> bool \<Rightarrow> kernel \<Rightarrow> kernel" where
  "set_cpu_active cpu active s =
     (if active then s\<lparr>cpu_active_mask := insert cpu (cpu_active_mask s)\<rparr>
      else s\<lparr>cpu_active_mask := cpu_active_mask s - {cpu}\<rparr>)"

text \<open>
  Modelled from the spec: \<^verbatim>\<open>update_cpu_boot_status\<close> is defined in \<^verbatim>\<open>asm/smp.h\<close>,
  not in the file; the "boot-status word" it sets is the \<^verbatim>\<open>status\<close> member of
  \<^verbatim>\<open>secondary_data\<close> that \<^verbatim>\<open>__cpu_up\<close> reads back.
\<close>

definition update_cpu_boot_status :: "int \<Rightarrow> kernel \<Rightarrow> kernel" where
  "update_cpu_boot_status val s = s\<lparr>secondary_data := (secondary_data s)\<lparr>status := val\<rparr>\<rparr>"

text \<open>\<^verbatim>\<open>THREAD_START_SP\<close> is \<^verbatim>\<open>(THREAD_SIZE - 16)\<close> (\<^verbatim>\<open>asm/thread_info.h\<close>).\<close>

definition THREAD_START_SP :: "kconfig \<Rightarrow> u64" where
  "THREAD_START_SP C = of_nat (THREAD_SIZE C) - 16"

text \<open>
  \<^verbatim>\<open>boot_secondary\<close> reads \<^verbatim>\<open>cpu_ops[cpu]->cpu_boot\<close> with no test of
  \<^verbatim>\<open>cpu_ops[cpu]\<close>: \<open>None\<close> is that dereference of \<^verbatim>\<open>NULL\<close>.
\<close>

definition boot_secondary :: "externals \<Rightarrow> nat \<Rightarrow> task_struct \<Rightarrow> int option" where
  "boot_secondary E cpu idle =
     (case cpu_ops E cpu of
        None \<Rightarrow> None
      | Some ops \<Rightarrow>
          (case cpu_boot ops of
             Some f \<Rightarrow> Some (f cpu)
           | None \<Rightarrow> Some (- EOPNOTSUPP)))"

text \<open>
  \<^verbatim>\<open>op_cpu_kill\<close>: the function of lines 336-347 under \<^verbatim>\<open>CONFIG_HOTPLUG_CPU\<close>,
  the inline stub returning \<^verbatim>\<open>-ENOSYS\<close> otherwise. \<open>None\<close> is the dereference of
  a \<^verbatim>\<open>NULL\<close> \<^verbatim>\<open>cpu_ops[cpu]\<close>.
\<close>

definition op_cpu_kill :: "kconfig \<Rightarrow> externals \<Rightarrow> nat \<Rightarrow> int option" where
  "op_cpu_kill C E cpu =
     (if CONFIG_HOTPLUG_CPU C then
        (case cpu_ops E cpu of
           None \<Rightarrow> None
         | Some ops \<Rightarrow>
             (case cpu_kill ops of
                None \<Rightarrow> Some 0
              | Some f \<Rightarrow> Some (f cpu)))
      else Some (- ENOSYS))"

text \<open>
  The arm \<^verbatim>\<open>case CPU_STUCK_IN_KERNEL:\<close> of the switch in \<^verbatim>\<open>__cpu_up\<close>, entered
  by that status and by the fall-through from \<^verbatim>\<open>case CPU_KILL_ME:\<close>.
\<close>

definition case_stuck_in_kernel :: "nat \<Rightarrow> kernel \<Rightarrow> kernel" where
  "case_stuck_in_kernel cpu s =
     (pr [Pr_stuck_in_kernel cpu] s)\<lparr>cpus_stuck_in_kernel := cpus_stuck_in_kernel s + 1\<rparr>"

text \<open>
  \<^verbatim>\<open>__cpu_up\<close>, lines 186-215: what follows the \<^verbatim>\<open>if (ret == 0) ... else\<close>, with
  the value of \<^verbatim>\<open>ret\<close> at that point.
\<close>

definition cpu_up_tail :: "kconfig \<Rightarrow> externals \<Rightarrow> nat \<Rightarrow> int \<Rightarrow> kernel \<Rightarrow> outcome" where
  "cpu_up_tail C E cpu ret s =
     (let s1 = s\<lparr>secondary_data := (secondary_data s)\<lparr>task := None, stack := 0\<rparr>\<rparr>;
          status0 = status (secondary_data s1)
      in if ret \<noteq> 0 \<and> status0 \<noteq> 0 then
           (let st = (if status0 = CPU_MMU_OFF then early_cpu_boot_status s1 else status0)
            in if st = CPU_KILL_ME then
                 (case op_cpu_kill C E cpu of
                    None \<Rightarrow> Null_deref s1
                  | Some k \<Rightarrow>
                      if k = 0 then Returns ret (pr [Pr_died_during_early_boot cpu] s1)
                      else Returns ret
                             (case_stuck_in_kernel cpu
                                (pr [Pr_may_not_have_shut_down_cleanly cpu] s1)))
               else if st = CPU_STUCK_IN_KERNEL then Returns ret (case_stuck_in_kernel cpu s1)
               else if st = CPU_PANIC_KERNEL
                 then Panics (pr [Panic_unsupported_configuration cpu] s1)
               else Returns ret (pr [Pr_unknown_state cpu st] s1))
         else Returns ret s1)"

text \<open>\<^verbatim>\<open>__cpu_up\<close>, lines 156-159: the handoff block is filled and flushed.\<close>

definition cpu_up_publish :: "kconfig \<Rightarrow> task_struct \<Rightarrow> kernel \<Rightarrow> kernel" where
  "cpu_up_publish C idle s =
     pr [Flush_dcache_secondary_data]
       (update_cpu_boot_status CPU_MMU_OFF
          (s\<lparr>secondary_data := (secondary_data s)
                \<lparr>task := Some idle, stack := task_stack_page idle + THREAD_START_SP C\<rparr>\<rparr>))"

definition arch_cpu_up ::
    "kconfig \<Rightarrow> externals \<Rightarrow> nat \<Rightarrow> task_struct \<Rightarrow> kernel \<Rightarrow> outcome" where
  "arch_cpu_up C E cpu idle s =
     (let s1 = cpu_up_publish C idle s in
      case boot_secondary E cpu idle of
        None \<Rightarrow> Null_deref s1
      | Some ret \<Rightarrow>
          if ret = 0 then
            (let s2 = wait_for_completion_timeout E s1 in
             if \<not> cpu_online s2 cpu then
               cpu_up_tail C E cpu (- EIO)
                 (pr (Pr_failed_to_come_online cpu #
                      (if CONFIG_ARM64_52BIT_VA C \<and> va52mismatch s2
                       then [Pr_no_52bit_va cpu] else [])) s2)
             else cpu_up_tail C E cpu ret s2)
          else Returns ret (pr [Pr_failed_to_boot cpu ret] s1))"

subsection \<open>Hotplug\<close>

text \<open>\<^verbatim>\<open>op_cpu_disable\<close> and \<^verbatim>\<open>__cpu_disable\<close> (built under \<^verbatim>\<open>CONFIG_HOTPLUG_CPU\<close>).\<close>

definition op_cpu_disable :: "externals \<Rightarrow> nat \<Rightarrow> int" where
  "op_cpu_disable E cpu =
     (case cpu_ops E cpu of
        None \<Rightarrow> - EOPNOTSUPP
      | Some ops \<Rightarrow>
          (case cpu_die ops of
             None \<Rightarrow> - EOPNOTSUPP
           | Some d \<Rightarrow>
               (case cpu_disable ops of
                  Some f \<Rightarrow> f cpu
                | None \<Rightarrow> 0)))"

definition arch_cpu_disable :: "externals \<Rightarrow> nat \<Rightarrow> kernel \<Rightarrow> int \<times> kernel" where
  "arch_cpu_disable E cpu s =
     (let ret = op_cpu_disable E cpu in
      if ret \<noteq> 0 then (ret, s)
      else (0, pr [Irq_migrate_all_off_this_cpu cpu] (set_cpu_online cpu False s)))"

subsection \<open>Are cores stuck in the kernel\<close>

text \<open>\<open>this_cpu\<close> is \<^verbatim>\<open>raw_smp_processor_id()\<close>.\<close>

definition have_cpu_die :: "kconfig \<Rightarrow> externals \<Rightarrow> nat \<Rightarrow> bool" where
  "have_cpu_die C E this_cpu =
     (if CONFIG_HOTPLUG_CPU C then
        (case cpu_ops E this_cpu of
           None \<Rightarrow> False
         | Some ops \<Rightarrow> (case cpu_die ops of None \<Rightarrow> False | Some d \<Rightarrow> True))
      else False)"

definition num_possible_cpus :: "kernel \<Rightarrow> nat" where
  "num_possible_cpus s = card (cpu_possible_mask s)"

definition cpus_are_stuck_in_kernel :: "kconfig \<Rightarrow> externals \<Rightarrow> nat \<Rightarrow> kernel \<Rightarrow> bool" where
  "cpus_are_stuck_in_kernel C E this_cpu s =
     (let smp_spin_tables = (1 < num_possible_cpus s \<and> \<not> have_cpu_die C E this_cpu)
      in cpus_stuck_in_kernel s \<noteq> 0 \<or> smp_spin_tables)"

subsection \<open>Sending inter-processor interrupts\<close>

text \<open>
  \<^verbatim>\<open>smp_cross_call\<close> traces and calls the platform's primitive through the pointer
  \<^verbatim>\<open>__smp_cross_call\<close>, which \<^verbatim>\<open>set_smp_cross_call\<close> has set; the primitive is
  outside the file and the call is logged with its mask and its message.
\<close>

definition smp_cross_call :: "nat set \<Rightarrow> u32 \<Rightarrow> kernel \<Rightarrow> kernel" where
  "smp_cross_call target ipinr s =
     pr [Trace_ipi_raise target ipinr, Smp_cross_call target ipinr] s"

text \<open>
  \<^verbatim>\<open>smp_cross_call_common\<close>: \<^verbatim>\<open>for_each_cpu\<close> visits, in increasing order, the
  bits of the mask (which has \<^verbatim>\<open>NR_CPUS\<close> bits) and stops at \<^verbatim>\<open>nr_cpu_ids\<close>.
\<close>

definition smp_cross_call_common :: "kconfig \<Rightarrow> nat set \<Rightarrow> u32 \<Rightarrow> kernel \<Rightarrow> kernel" where
  "smp_cross_call_common C cpumask func s =
     smp_cross_call cpumask func
       (fold (\<lambda>cpu t. if cpu \<in> cpumask then t\<lparr>pending_ipi := (pending_ipi t)(cpu := True)\<rparr>
                       else t)
          [0..<min (nr_cpu_ids s) (NR_CPUS C)] s)"

definition arch_send_call_function_ipi_mask :: "kconfig \<Rightarrow> nat set \<Rightarrow> kernel \<Rightarrow> kernel" where
  "arch_send_call_function_ipi_mask C cpumask s = smp_cross_call_common C cpumask IPI_CALL_FUNC s"

definition arch_send_call_function_single_ipi :: "kconfig \<Rightarrow> nat \<Rightarrow> kernel \<Rightarrow> kernel" where
  "arch_send_call_function_single_ipi C cpu s = smp_cross_call_common C {cpu} IPI_CALL_FUNC s"

definition arch_send_wakeup_ipi_mask :: "kconfig \<Rightarrow> nat set \<Rightarrow> kernel \<Rightarrow> kernel" where
  "arch_send_wakeup_ipi_mask C cpumask s = smp_cross_call_common C cpumask IPI_WAKEUP s"

definition tick_broadcast :: "kconfig \<Rightarrow> nat set \<Rightarrow> kernel \<Rightarrow> kernel" where
  "tick_broadcast C cpumask s = smp_cross_call_common C cpumask IPI_TIMER s"

subsection \<open>Stop and backtrace\<close>

text \<open>
  The spin locks \<^verbatim>\<open>stop_lock\<close> and \<^verbatim>\<open>backtrace_lock\<close> only keep the output of
  several cores apart; one core's path is modelled, on which they are free.

  \<^verbatim>\<open>ipi_cpu_stop\<close> ends in \<^verbatim>\<open>while (1) cpu_relax();\<close>. The loop never ends:
  \<open>None\<close> is the result of a call that does not return.
\<close>

definition cpu_relax :: "kernel \<Rightarrow> kernel" where
  "cpu_relax s = s"

partial_function (option) cpu_relax_loop :: "kernel \<Rightarrow> kernel option" where
  "cpu_relax_loop s = cpu_relax_loop (cpu_relax s)"

definition ipi_cpu_stop :: "nat \<Rightarrow> pt_regs \<Rightarrow> kernel \<Rightarrow> kernel option" where
  "ipi_cpu_stop cpu regs s =
     (let s1 = (if system_state s = SYSTEM_BOOTING \<or> system_state s = SYSTEM_RUNNING
                then pr [Pr_stopping cpu, Show_regs regs, Dump_stack cpu,
                         Dump_stack_minidump (regs_sp regs)]
                       (s\<lparr>regs_before_stop := (regs_before_stop s)(cpu := regs)\<rparr>)
                else s);
          s2 = pr [Flush_cache_all, Local_irq_disable cpu] (set_cpu_active cpu False s1)
      in cpu_relax_loop s2)"

definition ipi_cpu_backtrace :: "nat \<Rightarrow> pt_regs \<Rightarrow> kernel \<Rightarrow> kernel" where
  "ipi_cpu_backtrace cpu regs s =
     (if cpu \<in> backtrace_mask s
      then (pr [Pr_ipi_backtrace cpu, Show_regs regs] s)
             \<lparr>backtrace_mask := backtrace_mask s - {cpu}\<rparr>
      else s)"

text \<open>
  The wait of \<^verbatim>\<open>smp_send_all_cpu_backtrace\<close>:
  \<^verbatim>\<open>for (i = 0; i < 10 * 1000; i++) { if (cpumask_empty(&backtrace_mask)) break; mdelay(1); }\<close>
  from the counter \<open>i\<close> on.
\<close>

function backtrace_wait :: "externals \<Rightarrow> nat \<Rightarrow> kernel \<Rightarrow> kernel" where
  "backtrace_wait E i s =
     (if i < 10 * 1000
      then (if backtrace_mask s = {} then s else backtrace_wait E (Suc i) (mdelay E s))
      else s)"
  by pat_completeness auto
termination
  by (relation "measure (\<lambda>(E, i, s). 10 * 1000 - i)") auto

declare backtrace_wait.simps [simp del]

text \<open>\<^verbatim>\<open>test_and_set_bit(0, &backtrace_flag)\<close>: the old bit, and the word with the bit set.\<close>

definition test_and_set_bit :: "nat \<Rightarrow> u64 \<Rightarrow> bool \<times> u64" where
  "test_and_set_bit nr w = (bit w nr, set_bit nr w)"

definition smp_send_all_cpu_backtrace :: "externals \<Rightarrow> nat \<Rightarrow> kernel \<Rightarrow> kernel" where
  "smp_send_all_cpu_backtrace E this_cpu s =
     (let (old, w) = test_and_set_bit 0 (backtrace_flag s);
          s1 = s\<lparr>backtrace_flag := w\<rparr>
      in if old then s1
         else
           (let s2 = s1\<lparr>backtrace_mask := cpu_online_mask s1\<rparr>;
                s3 = s2\<lparr>backtrace_mask := backtrace_mask s2 - {this_cpu}\<rparr>;
                s4 = pr [Pr_backtrace_current this_cpu, Dump_stack this_cpu, Pr_sending_ipi] s3;
                s5 = (if backtrace_mask s4 \<noteq> {}
                      then smp_cross_call (backtrace_mask s4) IPI_CPU_BACKTRACE s4
                      else s4);
                s6 = backtrace_wait E 0 s5
            in s6\<lparr>backtrace_flag := unset_bit 0 (backtrace_flag s6)\<rparr>))"

subsection \<open>Handling an inter-processor interrupt\<close>

text \<open>
  \<^verbatim>\<open>handle_IPI\<close> on the core \<open>cpu\<close>. \<^verbatim>\<open>(unsigned)ipinr < NR_IPI\<close> reads the 32-bit
  \<open>ipinr\<close> as unsigned. The arms of \<^verbatim>\<open>IPI_TIMER\<close> and \<^verbatim>\<open>IPI_IRQ_WORK\<close> exist only
  under their configuration switches; without them the number reaches
  \<^verbatim>\<open>default\<close>.
\<close>

definition handle_IPI ::
    "kconfig \<Rightarrow> externals \<Rightarrow> nat \<Rightarrow> u32 \<Rightarrow> pt_regs \<Rightarrow> kernel \<Rightarrow> kernel option" where
  "handle_IPI C E cpu ipinr regs s =
     (let old_regs = irq_regs s cpu;
          s0 = s\<lparr>irq_regs := (irq_regs s)(cpu := Some regs)\<rparr>;
          s1 = (if unat ipinr < NR_IPI
                then (pr [Trace_ipi_entry ipinr] s0)
                       \<lparr>ipi_irqs := (ipi_irqs s0)
                          (cpu := (ipi_irqs s0 cpu)
                             (unat ipinr := ipi_irqs s0 cpu (unat ipinr) + 1))\<rparr>
                else s0);
          r = (if ipinr = IPI_RESCHEDULE then Some (scheduler_ipi E s1)
               else if ipinr = IPI_CALL_FUNC
                 then Some (irq_exit E (generic_smp_call_function_interrupt E (irq_enter E s1)))
               else if ipinr = IPI_CPU_STOP
                 then map_option (irq_exit E) (ipi_cpu_stop cpu regs (irq_enter E s1))
               else if CONFIG_GENERIC_CLOCKEVENTS_BROADCAST C \<and> ipinr = IPI_TIMER
                 then Some (irq_exit E (tick_receive_broadcast E (irq_enter E s1)))
               else if CONFIG_IRQ_WORK C \<and> ipinr = IPI_IRQ_WORK
                 then Some (irq_exit E (irq_work_run E (irq_enter E s1)))
               else if ipinr = IPI_WAKEUP then Some s1
               else if ipinr = IPI_CPU_BACKTRACE then Some (ipi_cpu_backtrace cpu regs s1)
               else Some (pr [Pr_unknown_ipi cpu ipinr] s1))
      in map_option
           (\<lambda>s2. let s3 = (if unat ipinr < NR_IPI then pr [Trace_ipi_exit ipinr] s2 else s2)
                  in s3\<lparr>pending_ipi := (pending_ipi s3)(cpu := False),
                        irq_regs := (irq_regs s3)(cpu := old_regs)\<rparr>)
           r)"

subsection \<open>Notions of the specification\<close>

text \<open>A core "has a die operation" when its entry of \<^verbatim>\<open>cpu_ops\<close> and its \<^verbatim>\<open>cpu_die\<close> are set.\<close>

definition core_has_die :: "externals \<Rightarrow> nat \<Rightarrow> bool" where
  "core_has_die E cpu =
     (case cpu_ops E cpu of None \<Rightarrow> False | Some ops \<Rightarrow> cpu_die ops \<noteq> None)"

text \<open>
  The stuck-core query in the specification's words: "(count > 0) OR (more than one
  possible core exists AND no die operation is available anywhere)".
\<close>

definition spec_cores_stuck :: "externals \<Rightarrow> kernel \<Rightarrow> bool" where
  "spec_cores_stuck E s =
     (0 < sint (cpus_stuck_in_kernel s) \<or>
      (1 < card (cpu_possible_mask s) \<and> \<not> (\<exists>cpu \<in> cpu_possible_mask s. core_has_die E cpu)))"

text \<open>
  The status that \<^verbatim>\<open>__cpu_up\<close> classifies a failure by: \<^verbatim>\<open>secondary_data.status\<close>,
  or \<^verbatim>\<open>__early_cpu_boot_status\<close> when that still reads \<^verbatim>\<open>CPU_MMU_OFF\<close>.
\<close>

definition boot_status :: "kernel \<Rightarrow> int" where
  "boot_status s =
     (if status (secondary_data s) = CPU_MMU_OFF then early_cpu_boot_status s
      else status (secondary_data s))"

subsection \<open>Concrete inputs\<close>

text \<open>
  A configuration with hotplug, and the globals as the kernel's image initialises them
  (\<^verbatim>\<open>cpu_count = 1\<close>, every entry of the logical map \<^verbatim>\<open>INVALID_HWID\<close>,
  \<^verbatim>\<open>nr_cpu_ids = NR_CPUS\<close>).
\<close>

definition defconfig :: kconfig where
  "defconfig = \<lparr>NR_CPUS = 8, THREAD_SIZE = 16384, CONFIG_HOTPLUG_CPU = True,
     CONFIG_ARM64_52BIT_VA = False, CONFIG_GENERIC_CLOCKEVENTS_BROADCAST = True,
     CONFIG_IRQ_WORK = True\<rparr>"

definition kernel_init :: kernel where
  "kernel_init = \<lparr>secondary_data = \<lparr>task = None, stack = 0, status = 0\<rparr>,
     early_cpu_boot_status = 0, cpus_stuck_in_kernel = 0, va52mismatch = False,
     nr_cpu_ids = 8,
     cpu_possible_mask = {}, cpu_online_mask = {}, cpu_active_mask = {},
     cpu_logical_map = (\<lambda>cpu. INVALID_HWID), bootcpu_valid = False, cpu_count = 1,
     pending_ipi = (\<lambda>cpu. False), backtrace_mask = {}, backtrace_flag = 0,
     ipi_irqs = (\<lambda>cpu nr. 0), regs_before_stop = (\<lambda>cpu. \<lparr>regs_sp = 0, regs_pc = 0\<rparr>),
     irq_regs = (\<lambda>cpu. None), system_state = SYSTEM_BOOTING, klog = []\<rparr>"

text \<open>
  A platform whose cores all have the operations \<open>ops\<close>, whose released core leaves
  the globals as \<open>w\<close> makes them, and whose other collaborators leave them alone.
\<close>

definition platform :: "cpu_operations option \<Rightarrow> (kernel \<Rightarrow> kernel) \<Rightarrow> externals" where
  "platform ops w = \<lparr>cpu_ops = (\<lambda>cpu. ops), wait_for_completion_timeout = w,
     scheduler_ipi = (\<lambda>s. s), generic_smp_call_function_interrupt = (\<lambda>s. s),
     tick_receive_broadcast = (\<lambda>s. s), irq_work_run = (\<lambda>s. s), irq_enter = (\<lambda>s. s),
     irq_exit = (\<lambda>s. s), mdelay = (\<lambda>s. s)\<rparr>"

text \<open>
  Operations with a boot method returning \<open>b\<close>, a die method, and the kill method
  \<open>k\<close>.
\<close>

definition test_ops :: "int \<Rightarrow> (nat \<Rightarrow> int) option \<Rightarrow> cpu_operations" where
  "test_ops b k = \<lparr>cpu_boot = Some (\<lambda>cpu. b), cpu_disable = None,
     cpu_die = Some (\<lambda>cpu. ()), cpu_kill = k\<rparr>"

definition idle_task :: task_struct where
  "idle_task = \<lparr>task_cpu = 1, task_stack_page = 0x8000\<rparr>"

section \<open>Properties\<close>

subsection \<open>Bring-up: the paths of \<^verbatim>\<open>__cpu_up\<close>\<close>

lemma cpu_up_boot_failed:
  "boot_secondary E cpu idle = Some ret \<Longrightarrow> ret \<noteq> 0 \<Longrightarrow>
   arch_cpu_up C E cpu idle s =
     Returns ret (pr [Pr_failed_to_boot cpu ret] (cpu_up_publish C idle s))"
  by (simp add: arch_cpu_up_def)

lemma cpu_up_online:
  "boot_secondary E cpu idle = Some 0 \<Longrightarrow>
   s2 = wait_for_completion_timeout E (cpu_up_publish C idle s) \<Longrightarrow> cpu_online s2 cpu \<Longrightarrow>
   arch_cpu_up C E cpu idle s =
     Returns 0 (s2\<lparr>secondary_data := (secondary_data s2)\<lparr>task := None, stack := 0\<rparr>\<rparr>)"
  by (simp add: arch_cpu_up_def cpu_up_tail_def Let_def)

lemma cpu_up_not_online:
  "boot_secondary E cpu idle = Some 0 \<Longrightarrow>
   s2 = wait_for_completion_timeout E (cpu_up_publish C idle s) \<Longrightarrow> \<not> cpu_online s2 cpu \<Longrightarrow>
   arch_cpu_up C E cpu idle s =
     cpu_up_tail C E cpu (- EIO)
       (pr (Pr_failed_to_come_online cpu #
            (if CONFIG_ARM64_52BIT_VA C \<and> va52mismatch s2 then [Pr_no_52bit_va cpu] else [])) s2)"
  by (simp add: arch_cpu_up_def Let_def)

lemma state_of_cpu_up_tail:
  "task (secondary_data (state_of (cpu_up_tail C E cpu ret s))) = None \<and>
   stack (secondary_data (state_of (cpu_up_tail C E cpu ret s))) = 0"
  by (simp add: cpu_up_tail_def Let_def pr_def case_stuck_in_kernel_def split: option.split)

lemma cpu_up_tail_kill_me:
  assumes "boot_status s = CPU_KILL_ME" "op_cpu_kill C E cpu = Some k"
  shows "cpu_up_tail C E cpu (- EIO) s =
     (let s1 = s\<lparr>secondary_data := (secondary_data s)\<lparr>task := None, stack := 0\<rparr>\<rparr> in
      if k = 0 then Returns (- EIO) (pr [Pr_died_during_early_boot cpu] s1)
      else Returns (- EIO)
             (case_stuck_in_kernel cpu (pr [Pr_may_not_have_shut_down_cleanly cpu] s1)))"
  using assms
  by (auto simp add: cpu_up_tail_def Let_def boot_status_def EIO_def CPU_KILL_ME_def
      CPU_MMU_OFF_def split: if_splits)

lemma op_cpu_kill_defined:
  "boot_secondary E cpu idle = Some r \<Longrightarrow> \<exists>k. op_cpu_kill C E cpu = Some k"
  by (auto simp add: boot_secondary_def op_cpu_kill_def split: option.splits)

lemma returned_cpu_up_tail:
  "op_cpu_kill C E cpu \<noteq> None \<Longrightarrow> ret \<noteq> 0 \<Longrightarrow>
   (if boot_status s = CPU_PANIC_KERNEL
    then panicked (cpu_up_tail C E cpu ret s) \<and> returned (cpu_up_tail C E cpu ret s) = None
    else returned (cpu_up_tail C E cpu ret s) = Some ret)"
  by (auto simp add: cpu_up_tail_def Let_def boot_status_def CPU_KILL_ME_def CPU_MMU_OFF_def
      CPU_PANIC_KERNEL_def CPU_STUCK_IN_KERNEL_def split: if_splits option.splits)

text \<open>
  The increment of the stuck-core counter is the 32-bit one: from \<^verbatim>\<open>INT_MAX\<close> it
  gives \<^verbatim>\<open>INT_MIN\<close>.
\<close>

lemma sint_incr:
  "sint (c + 1 :: s32) = (if sint c = 2147483647 then - 2147483648 else sint c + 1)"
proof -
  have b: "- 2147483648 \<le> sint c" "sint c \<le> 2147483647"
    using sint_ge [of c] sint_lt [of c] by simp_all
  have "sint (c + 1) = signed_take_bit 31 (sint c + 1)"
    by (simp add: sint_word_ariths)
  also have "\<dots> = (if sint c = 2147483647 then - 2147483648 else sint c + 1)"
  proof (cases "sint c = 2147483647")
    case True
    then show ?thesis by simp
  next
    case False
    with b have "- (2 ^ 31) \<le> sint c + 1" "sint c + 1 < 2 ^ 31" by simp_all
    then have "signed_take_bit 31 (sint c + 1) = sint c + 1"
      by (simp add: signed_take_bit_int_eq_self)
    with False show ?thesis by simp
  qed
  finally show ?thesis .
qed

lemma case_stuck_in_kernel_wraps:
  "cpus_stuck_in_kernel s = 2147483647 \<Longrightarrow>
   sint (cpus_stuck_in_kernel (case_stuck_in_kernel cpu s)) = - 2147483648"
  by (simp add: case_stuck_in_kernel_def pr_def)

text \<open>
  C1, as the code has it. The boot operation released the core, the core is not online
  when the wait ends, and the status reads \<^verbatim>\<open>CPU_KILL_ME\<close>. Then \<^verbatim>\<open>__cpu_up\<close> calls
  \<^verbatim>\<open>op_cpu_kill\<close> and returns \<^verbatim>\<open>-EIO\<close>. When the kill succeeds (returns 0) it
  reports "died during early boot" and leaves the stuck-core counter alone. When the
  kill fails it reports "may not have shut down cleanly", then "is stuck in kernel",
  and increments the counter, a 32-bit \<^verbatim>\<open>int\<close>: the sum below is the machine's, and
  read as a signed number the counter goes up by one, from \<^verbatim>\<open>INT_MAX\<close> to
  \<^verbatim>\<open>INT_MIN\<close>. The claim has the two reports the other way round.
\<close>

theorem cpu_up_kill_me_classification:
  assumes "boot_secondary E cpu idle = Some 0"
    and "s2 = wait_for_completion_timeout E (cpu_up_publish C idle s)"
    and "\<not> cpu_online s2 cpu"
    and "boot_status s2 = CPU_KILL_ME"
  shows "\<exists>k. op_cpu_kill C E cpu = Some k \<and>
           returned (arch_cpu_up C E cpu idle s) = Some (- EIO) \<and>
           klog (state_of (arch_cpu_up C E cpu idle s)) =
             klog s2 @
             Pr_failed_to_come_online cpu #
             (if CONFIG_ARM64_52BIT_VA C \<and> va52mismatch s2 then [Pr_no_52bit_va cpu] else []) @
             (if k = 0 then [Pr_died_during_early_boot cpu]
              else [Pr_may_not_have_shut_down_cleanly cpu, Pr_stuck_in_kernel cpu]) \<and>
           cpus_stuck_in_kernel (state_of (arch_cpu_up C E cpu idle s)) =
             cpus_stuck_in_kernel s2 + (if k = 0 then 0 else 1) \<and>
           sint (cpus_stuck_in_kernel (state_of (arch_cpu_up C E cpu idle s))) =
             (if k = 0 then sint (cpus_stuck_in_kernel s2)
              else if sint (cpus_stuck_in_kernel s2) = 2147483647 then - 2147483648
              else sint (cpus_stuck_in_kernel s2) + 1)"
proof -
  obtain k where k: "op_cpu_kill C E cpu = Some k"
    using op_cpu_kill_defined [OF assms(1)] by blast
  let ?t = "pr (Pr_failed_to_come_online cpu #
            (if CONFIG_ARM64_52BIT_VA C \<and> va52mismatch s2 then [Pr_no_52bit_va cpu] else [])) s2"
  have st: "boot_status ?t = CPU_KILL_ME"
    using assms(4) by (simp add: boot_status_def pr_def split: if_splits)
  have up: "arch_cpu_up C E cpu idle s = cpu_up_tail C E cpu (- EIO) ?t"
    by (rule cpu_up_not_online [OF assms(1-3)])
  show ?thesis
    unfolding up cpu_up_tail_kill_me [OF st k]
    using k by (simp add: Let_def pr_def case_stuck_in_kernel_def sint_incr)
qed

text \<open>
  The theorem at a core whose kill method fails with \<open>-1\<close> and whose released core set
  the status to \<^verbatim>\<open>CPU_KILL_ME\<close>: "may not have shut down cleanly", one stuck core.
\<close>

theorem cpu_up_kill_me_classification_witness:
  "boot_secondary
     (platform (Some (test_ops 0 (Some (\<lambda>cpu. - 1)))) (update_cpu_boot_status CPU_KILL_ME))
     1 idle_task = Some 0 \<and>
   \<not> cpu_online
       (update_cpu_boot_status CPU_KILL_ME (cpu_up_publish defconfig idle_task kernel_init)) 1 \<and>
   boot_status
     (update_cpu_boot_status CPU_KILL_ME (cpu_up_publish defconfig idle_task kernel_init))
     = CPU_KILL_ME \<and>
   op_cpu_kill defconfig
     (platform (Some (test_ops 0 (Some (\<lambda>cpu. - 1)))) (update_cpu_boot_status CPU_KILL_ME))
     1 = Some (- 1) \<and>
   returned (arch_cpu_up defconfig
     (platform (Some (test_ops 0 (Some (\<lambda>cpu. - 1)))) (update_cpu_boot_status CPU_KILL_ME))
     1 idle_task kernel_init) = Some (- 5) \<and>
   klog (state_of (arch_cpu_up defconfig
     (platform (Some (test_ops 0 (Some (\<lambda>cpu. - 1)))) (update_cpu_boot_status CPU_KILL_ME))
     1 idle_task kernel_init)) =
     [Flush_dcache_secondary_data, Pr_failed_to_come_online 1,
      Pr_may_not_have_shut_down_cleanly 1, Pr_stuck_in_kernel 1] \<and>
   cpus_stuck_in_kernel (state_of (arch_cpu_up defconfig
     (platform (Some (test_ops 0 (Some (\<lambda>cpu. - 1)))) (update_cpu_boot_status CPU_KILL_ME))
     1 idle_task kernel_init)) = 1"
  using cpu_up_kill_me_classification
    [of "platform (Some (test_ops 0 (Some (\<lambda>cpu. - 1)))) (update_cpu_boot_status CPU_KILL_ME)"
        1 idle_task
        "update_cpu_boot_status CPU_KILL_ME (cpu_up_publish defconfig idle_task kernel_init)"
        defconfig kernel_init]
  by (simp add: boot_secondary_def platform_def test_ops_def update_cpu_boot_status_def
      cpu_up_publish_def defconfig_def kernel_init_def pr_def cpu_online_def boot_status_def
      op_cpu_kill_def CPU_KILL_ME_def CPU_MMU_OFF_def EIO_def)

text \<open>
  C1 as stated fails: the kill succeeds (\<^verbatim>\<open>op_cpu_kill\<close> returns 0) and the report is
  "died during early boot", not "may not have shut down cleanly".
\<close>

theorem cpu_up_kill_me_counterexample:
  "op_cpu_kill defconfig
     (platform (Some (test_ops 0 (Some (\<lambda>cpu. 0)))) (update_cpu_boot_status CPU_KILL_ME))
     1 = Some 0 \<and>
   klog (state_of (arch_cpu_up defconfig
     (platform (Some (test_ops 0 (Some (\<lambda>cpu. 0)))) (update_cpu_boot_status CPU_KILL_ME))
     1 idle_task kernel_init)) =
     [Flush_dcache_secondary_data, Pr_failed_to_come_online 1, Pr_died_during_early_boot 1]"
  by (simp add: arch_cpu_up_def cpu_up_tail_def boot_secondary_def platform_def test_ops_def
      update_cpu_boot_status_def cpu_up_publish_def defconfig_def kernel_init_def pr_def
      cpu_online_def op_cpu_kill_def CPU_KILL_ME_def CPU_MMU_OFF_def EIO_def Let_def)

text \<open>
  C2, as the code has it. Whenever the boot operation released the core, the context
  and stack fields of \<^verbatim>\<open>secondary_data\<close> are \<^verbatim>\<open>NULL\<close> when \<^verbatim>\<open>__cpu_up\<close> returns
  (with success or with \<^verbatim>\<open>-EIO\<close>) or panics.
\<close>

theorem cpu_up_clears_handoff:
  assumes "boot_secondary E cpu idle = Some 0"
  shows "task (secondary_data (state_of (arch_cpu_up C E cpu idle s))) = None \<and>
         stack (secondary_data (state_of (arch_cpu_up C E cpu idle s))) = 0 \<and>
         (returned (arch_cpu_up C E cpu idle s) \<noteq> None \<or> panicked (arch_cpu_up C E cpu idle s))"
proof -
  obtain k where k: "op_cpu_kill C E cpu = Some k"
    using op_cpu_kill_defined [OF assms] by blast
  show ?thesis
  proof (cases "cpu_online (wait_for_completion_timeout E (cpu_up_publish C idle s)) cpu")
    case True
    show ?thesis by (simp add: cpu_up_online [OF assms refl True])
  next
    case False
    have r: "returned (cpu_up_tail C E cpu (- EIO) t) \<noteq> None \<or> panicked (cpu_up_tail C E cpu (- EIO) t)" for t
      using returned_cpu_up_tail [of C E cpu "- EIO" t] k
      by (auto simp add: EIO_def split: if_splits)
    show ?thesis
      unfolding cpu_up_not_online [OF assms refl False]
      using r by (simp add: state_of_cpu_up_tail)
  qed
qed

text \<open>The theorem at a core that comes online during the wait.\<close>

theorem cpu_up_clears_handoff_witness:
  "boot_secondary (platform (Some (test_ops 0 None)) (set_cpu_online 1 True)) 1 idle_task = Some 0 \<and>
   task (secondary_data (state_of (arch_cpu_up defconfig
     (platform (Some (test_ops 0 None)) (set_cpu_online 1 True)) 1 idle_task kernel_init))) = None \<and>
   stack (secondary_data (state_of (arch_cpu_up defconfig
     (platform (Some (test_ops 0 None)) (set_cpu_online 1 True)) 1 idle_task kernel_init))) = 0 \<and>
   returned (arch_cpu_up defconfig
     (platform (Some (test_ops 0 None)) (set_cpu_online 1 True)) 1 idle_task kernel_init) = Some 0"
  using cpu_up_clears_handoff
    [of "platform (Some (test_ops 0 None)) (set_cpu_online 1 True)" 1 idle_task defconfig kernel_init]
  by (simp add: arch_cpu_up_def cpu_up_tail_def boot_secondary_def platform_def test_ops_def
      set_cpu_online_def update_cpu_boot_status_def cpu_up_publish_def defconfig_def
      kernel_init_def pr_def cpu_online_def CPU_MMU_OFF_def Let_def)

text \<open>
  C2 as stated fails where the boot operation refuses (here with \<open>-22\<close>):
  \<^verbatim>\<open>__cpu_up\<close> returns the error from its \<^verbatim>\<open>else\<close> branch, before the two
  assignments of \<^verbatim>\<open>NULL\<close>, and the block still holds the idle task and its stack.
\<close>

theorem cpu_up_boot_refused_counterexample:
  "returned (arch_cpu_up defconfig (platform (Some (test_ops (- 22) None)) (\<lambda>s. s))
     1 idle_task kernel_init) = Some (- 22) \<and>
   task (secondary_data (state_of (arch_cpu_up defconfig
     (platform (Some (test_ops (- 22) None)) (\<lambda>s. s)) 1 idle_task kernel_init))) = Some idle_task \<and>
   stack (secondary_data (state_of (arch_cpu_up defconfig
     (platform (Some (test_ops (- 22) None)) (\<lambda>s. s)) 1 idle_task kernel_init))) = 0xBFF0"
  by (simp add: arch_cpu_up_def boot_secondary_def platform_def test_ops_def
      update_cpu_boot_status_def cpu_up_publish_def defconfig_def kernel_init_def pr_def
      idle_task_def THREAD_START_SP_def CPU_MMU_OFF_def Let_def)

text \<open>
  C7, as the code has it. After the boot operation succeeded, \<^verbatim>\<open>__cpu_up\<close> returns 0
  exactly when the core is online at the end of the wait. Otherwise it returns
  \<^verbatim>\<open>-EIO\<close>, unless the status reads \<^verbatim>\<open>CPU_PANIC_KERNEL\<close>: then it calls
  \<^verbatim>\<open>panic\<close> and returns nothing.
\<close>

theorem cpu_up_success_iff_online:
  assumes "boot_secondary E cpu idle = Some 0"
    and "s2 = wait_for_completion_timeout E (cpu_up_publish C idle s)"
  shows "(returned (arch_cpu_up C E cpu idle s) = Some 0) = cpu_online s2 cpu \<and>
         (\<not> cpu_online s2 cpu \<longrightarrow>
            (if boot_status s2 = CPU_PANIC_KERNEL
             then panicked (arch_cpu_up C E cpu idle s) \<and>
                  returned (arch_cpu_up C E cpu idle s) = None
             else returned (arch_cpu_up C E cpu idle s) = Some (- EIO)))"
proof (cases "cpu_online s2 cpu")
  case True
  then show ?thesis by (simp add: cpu_up_online [OF assms True])
next
  case False
  obtain k where k: "op_cpu_kill C E cpu = Some k"
    using op_cpu_kill_defined [OF assms(1)] by blast
  let ?t = "pr (Pr_failed_to_come_online cpu #
            (if CONFIG_ARM64_52BIT_VA C \<and> va52mismatch s2 then [Pr_no_52bit_va cpu] else [])) s2"
  have st: "boot_status ?t = boot_status s2"
    by (simp add: boot_status_def pr_def)
  have "if boot_status ?t = CPU_PANIC_KERNEL
        then panicked (cpu_up_tail C E cpu (- EIO) ?t) \<and> returned (cpu_up_tail C E cpu (- EIO) ?t) = None
        else returned (cpu_up_tail C E cpu (- EIO) ?t) = Some (- EIO)"
    by (rule returned_cpu_up_tail) (simp_all add: k EIO_def)
  then show ?thesis
    unfolding cpu_up_not_online [OF assms False] st
    using False by (auto simp add: EIO_def split: if_splits)
qed

text \<open>
  The theorem at a core that is stuck in the kernel and never comes online, and at a
  core that comes online during the wait.
\<close>

theorem cpu_up_success_iff_online_witness:
  "boot_secondary (platform (Some (test_ops 0 None)) (update_cpu_boot_status CPU_STUCK_IN_KERNEL))
     1 idle_task = Some 0 \<and>
   \<not> cpu_online (update_cpu_boot_status CPU_STUCK_IN_KERNEL
                   (cpu_up_publish defconfig idle_task kernel_init)) 1 \<and>
   boot_status (update_cpu_boot_status CPU_STUCK_IN_KERNEL
                   (cpu_up_publish defconfig idle_task kernel_init)) = 2 \<and>
   returned (arch_cpu_up defconfig
     (platform (Some (test_ops 0 None)) (update_cpu_boot_status CPU_STUCK_IN_KERNEL))
     1 idle_task kernel_init) = Some (- 5) \<and>
   cpu_online (set_cpu_online 1 True (cpu_up_publish defconfig idle_task kernel_init)) 1 \<and>
   returned (arch_cpu_up defconfig
     (platform (Some (test_ops 0 None)) (set_cpu_online 1 True))
     1 idle_task kernel_init) = Some 0"
  using cpu_up_success_iff_online
    [of "platform (Some (test_ops 0 None)) (update_cpu_boot_status CPU_STUCK_IN_KERNEL)"
        1 idle_task
        "update_cpu_boot_status CPU_STUCK_IN_KERNEL (cpu_up_publish defconfig idle_task kernel_init)"
        defconfig kernel_init]
    cpu_up_success_iff_online
    [of "platform (Some (test_ops 0 None)) (set_cpu_online 1 True)"
        1 idle_task
        "set_cpu_online 1 True (cpu_up_publish defconfig idle_task kernel_init)"
        defconfig kernel_init]
  by (simp add: boot_secondary_def platform_def test_ops_def update_cpu_boot_status_def
      cpu_up_publish_def defconfig_def kernel_init_def pr_def cpu_online_def boot_status_def
      set_cpu_online_def
      CPU_STUCK_IN_KERNEL_def CPU_PANIC_KERNEL_def CPU_MMU_OFF_def EIO_def)

text \<open>
  C7 as stated fails: the boot operation succeeded, the core is not online and its
  status reads \<^verbatim>\<open>CPU_PANIC_KERNEL\<close>; the call panics and returns no failure.
\<close>

theorem cpu_up_panic_counterexample:
  "boot_secondary (platform (Some (test_ops 0 None)) (update_cpu_boot_status CPU_PANIC_KERNEL))
     1 idle_task = Some 0 \<and>
   cpu_online (update_cpu_boot_status CPU_PANIC_KERNEL
                   (cpu_up_publish defconfig idle_task kernel_init)) 1 = False \<and>
   returned (arch_cpu_up defconfig
     (platform (Some (test_ops 0 None)) (update_cpu_boot_status CPU_PANIC_KERNEL))
     1 idle_task kernel_init) = None \<and>
   panicked (arch_cpu_up defconfig
     (platform (Some (test_ops 0 None)) (update_cpu_boot_status CPU_PANIC_KERNEL))
     1 idle_task kernel_init)"
  by (simp add: arch_cpu_up_def cpu_up_tail_def boot_secondary_def platform_def test_ops_def
      update_cpu_boot_status_def cpu_up_publish_def defconfig_def kernel_init_def pr_def
      cpu_online_def CPU_PANIC_KERNEL_def CPU_KILL_ME_def CPU_STUCK_IN_KERNEL_def
      CPU_MMU_OFF_def EIO_def Let_def)




subsection \<open>Enumeration\<close>

lemma is_mpidr_duplicate_1: "is_mpidr_duplicate C s (Suc 0) hwid = False"
  by (simp add: is_mpidr_duplicate_def is_mpidr_duplicate_from.simps)

lemma is_mpidr_duplicate_2:
  "2 \<le> NR_CPUS C \<Longrightarrow>
   is_mpidr_duplicate C s (Suc (Suc 0)) hwid = (cpu_logical_map s (Suc 0) = hwid)"
  by (simp add: is_mpidr_duplicate_def is_mpidr_duplicate_from.simps)

text \<open>
  C6. The boot core's hardware id is \<open>0xA\<close> (it is entry 0 of the logical map before
  the enumeration, as the code assumes), nothing is enumerated yet and at least two
  cores are configured. Enumerating the records \<open>0xA\<close>, \<open>0xB\<close>, \<open>0xA\<close>, all enabled,
  from the firmware table and from the device tree: entry 0 stays \<open>0xA\<close> and is
  validated (\<^verbatim>\<open>bootcpu_valid\<close>), entry 1 becomes \<open>0xB\<close>, and the third record only
  prints the duplicate-boot-cpu error: no other entry changes and the walk goes on to
  its end. The two paths differ in \<^verbatim>\<open>cpu_count\<close>, which the device-tree path also
  increments for the dropped record.
\<close>

theorem enumeration_scenario:
  assumes "2 \<le> NR_CPUS C" and "cpu_count s = 1" and "\<not> bootcpu_valid s"
    and "cpu_logical_map s 0 = 0xA"
  shows "acpi_table_parse_madt C
           [\<lparr>arm_mpidr = 0xA, flags = 1\<rparr>, \<lparr>arm_mpidr = 0xB, flags = 1\<rparr>,
            \<lparr>arm_mpidr = 0xA, flags = 1\<rparr>] s
         = s\<lparr>cpu_logical_map := (cpu_logical_map s)(1 := 0xB), bootcpu_valid := True,
              cpu_count := 2,
              klog := klog s @ [Early_map_cpu_to_node 0, Acpi_set_mailbox_entry 1,
                                Early_map_cpu_to_node 1, Pr_duplicate_boot_mpidr 0xA]\<rparr> \<and>
         of_parse_and_init_cpus C
           [\<lparr>reg = Some 0xA\<rparr>, \<lparr>reg = Some 0xB\<rparr>, \<lparr>reg = Some 0xA\<rparr>] s
         = s\<lparr>cpu_logical_map := (cpu_logical_map s)(1 := 0xB), bootcpu_valid := True,
              cpu_count := 3,
              klog := klog s @ [Early_map_cpu_to_node 0, Pr_cpu_logical_map 0xB,
                                Early_map_cpu_to_node 1, Pr_duplicate_boot_mpidr 0xA]\<rparr>"
proof
  show "acpi_table_parse_madt C
           [\<lparr>arm_mpidr = 0xA, flags = 1\<rparr>, \<lparr>arm_mpidr = 0xB, flags = 1\<rparr>,
            \<lparr>arm_mpidr = 0xA, flags = 1\<rparr>] s
         = s\<lparr>cpu_logical_map := (cpu_logical_map s)(1 := 0xB), bootcpu_valid := True,
              cpu_count := 2,
              klog := klog s @ [Early_map_cpu_to_node 0, Acpi_set_mailbox_entry 1,
                                Early_map_cpu_to_node 1, Pr_duplicate_boot_mpidr 0xA]\<rparr>"
    using assms
    by (simp add: acpi_map_gic_cpu_interface_def pr_def is_mpidr_duplicate_1
        is_mpidr_duplicate_2 Let_def ACPI_MADT_ENABLED_def MPIDR_HWID_BITMASK_def
        INVALID_HWID_def)
  show "of_parse_and_init_cpus C
           [\<lparr>reg = Some 0xA\<rparr>, \<lparr>reg = Some 0xB\<rparr>, \<lparr>reg = Some 0xA\<rparr>] s
         = s\<lparr>cpu_logical_map := (cpu_logical_map s)(1 := 0xB), bootcpu_valid := True,
              cpu_count := 3,
              klog := klog s @ [Early_map_cpu_to_node 0, Pr_cpu_logical_map 0xB,
                                Early_map_cpu_to_node 1, Pr_duplicate_boot_mpidr 0xA]\<rparr>"
    using assms
    by (simp add: of_get_cpu_mpidr_def pr_def is_mpidr_duplicate_1 is_mpidr_duplicate_2
        Let_def MPIDR_HWID_BITMASK_def INVALID_HWID_def)
qed

text \<open>The scenario from the initial globals with 8 configured cores.\<close>

theorem enumeration_scenario_witness:
  "2 \<le> NR_CPUS defconfig \<and>
   cpu_count (kernel_init\<lparr>cpu_logical_map := (cpu_logical_map kernel_init)(0 := 0xA)\<rparr>) = 1 \<and>
   \<not> bootcpu_valid (kernel_init\<lparr>cpu_logical_map := (cpu_logical_map kernel_init)(0 := 0xA)\<rparr>) \<and>
   cpu_logical_map (kernel_init\<lparr>cpu_logical_map := (cpu_logical_map kernel_init)(0 := 0xA)\<rparr>) 0
     = 0xA \<and>
   cpu_logical_map
     (acpi_table_parse_madt defconfig
        [\<lparr>arm_mpidr = 0xA, flags = 1\<rparr>, \<lparr>arm_mpidr = 0xB, flags = 1\<rparr>,
         \<lparr>arm_mpidr = 0xA, flags = 1\<rparr>]
        (kernel_init\<lparr>cpu_logical_map := (cpu_logical_map kernel_init)(0 := 0xA)\<rparr>)) 0 = 0xA \<and>
   cpu_logical_map
     (acpi_table_parse_madt defconfig
        [\<lparr>arm_mpidr = 0xA, flags = 1\<rparr>, \<lparr>arm_mpidr = 0xB, flags = 1\<rparr>,
         \<lparr>arm_mpidr = 0xA, flags = 1\<rparr>]
        (kernel_init\<lparr>cpu_logical_map := (cpu_logical_map kernel_init)(0 := 0xA)\<rparr>)) 1 = 0xB \<and>
   cpu_logical_map
     (acpi_table_parse_madt defconfig
        [\<lparr>arm_mpidr = 0xA, flags = 1\<rparr>, \<lparr>arm_mpidr = 0xB, flags = 1\<rparr>,
         \<lparr>arm_mpidr = 0xA, flags = 1\<rparr>]
        (kernel_init\<lparr>cpu_logical_map := (cpu_logical_map kernel_init)(0 := 0xA)\<rparr>)) 2
     = INVALID_HWID \<and>
   bootcpu_valid
     (of_parse_and_init_cpus defconfig
        [\<lparr>reg = Some 0xA\<rparr>, \<lparr>reg = Some 0xB\<rparr>, \<lparr>reg = Some 0xA\<rparr>]
        (kernel_init\<lparr>cpu_logical_map := (cpu_logical_map kernel_init)(0 := 0xA)\<rparr>)) \<and>
   klog
     (of_parse_and_init_cpus defconfig
        [\<lparr>reg = Some 0xA\<rparr>, \<lparr>reg = Some 0xB\<rparr>, \<lparr>reg = Some 0xA\<rparr>]
        (kernel_init\<lparr>cpu_logical_map := (cpu_logical_map kernel_init)(0 := 0xA)\<rparr>))
     = [Early_map_cpu_to_node 0, Pr_cpu_logical_map 0xB, Early_map_cpu_to_node 1,
        Pr_duplicate_boot_mpidr 0xA]"
  using enumeration_scenario
    [of defconfig "kernel_init\<lparr>cpu_logical_map := (cpu_logical_map kernel_init)(0 := 0xA)\<rparr>"]
  by (simp add: defconfig_def kernel_init_def)

subsection \<open>Hotplug and the stuck-core query\<close>

text \<open>
  C8. \<^verbatim>\<open>__cpu_disable\<close> returns what the pre-disable check \<^verbatim>\<open>op_cpu_disable\<close>
  returns. For a core without a die operation that is \<^verbatim>\<open>-EOPNOTSUPP\<close>. Whenever the
  result is not 0 the state is the one it was called in: the online flag is not
  cleared and no interrupt is migrated. On 0 the core's online bit is cleared and the
  interrupts are migrated.
\<close>

theorem cpu_disable_refusal:
  "fst (arch_cpu_disable E cpu s) = op_cpu_disable E cpu \<and>
   (\<not> core_has_die E cpu \<longrightarrow> arch_cpu_disable E cpu s = (- EOPNOTSUPP, s)) \<and>
   (fst (arch_cpu_disable E cpu s) \<noteq> 0 \<longrightarrow> snd (arch_cpu_disable E cpu s) = s) \<and>
   (fst (arch_cpu_disable E cpu s) = 0 \<longrightarrow>
      snd (arch_cpu_disable E cpu s) =
        s\<lparr>cpu_online_mask := cpu_online_mask s - {cpu},
          klog := klog s @ [Irq_migrate_all_off_this_cpu cpu]\<rparr>)"
  by (auto simp add: arch_cpu_disable_def op_cpu_disable_def core_has_die_def Let_def
      EOPNOTSUPP_def set_cpu_online_def pr_def split: option.splits)

text \<open>
  The theorem at a core with no operations, at a core whose disable hook refuses with
  \<open>-16\<close>, and at a core that can be disabled.
\<close>

theorem cpu_disable_refusal_witness:
  "\<not> core_has_die (platform None (\<lambda>s. s)) 1 \<and>
   arch_cpu_disable (platform None (\<lambda>s. s)) 1 (kernel_init\<lparr>cpu_online_mask := {0, 1}\<rparr>)
     = (- 95, kernel_init\<lparr>cpu_online_mask := {0, 1}\<rparr>) \<and>
   fst (arch_cpu_disable
          (platform (Some ((test_ops 0 None)\<lparr>cpu_disable := Some (\<lambda>cpu. - 16)\<rparr>)) (\<lambda>s. s)) 1
          (kernel_init\<lparr>cpu_online_mask := {0, 1}\<rparr>)) = - 16 \<and>
   snd (arch_cpu_disable
          (platform (Some ((test_ops 0 None)\<lparr>cpu_disable := Some (\<lambda>cpu. - 16)\<rparr>)) (\<lambda>s. s)) 1
          (kernel_init\<lparr>cpu_online_mask := {0, 1}\<rparr>)) = kernel_init\<lparr>cpu_online_mask := {0, 1}\<rparr> \<and>
   fst (arch_cpu_disable (platform (Some (test_ops 0 None)) (\<lambda>s. s)) 1
          (kernel_init\<lparr>cpu_online_mask := {0, 1}\<rparr>)) = 0 \<and>
   cpu_online_mask (snd (arch_cpu_disable (platform (Some (test_ops 0 None)) (\<lambda>s. s)) 1
          (kernel_init\<lparr>cpu_online_mask := {0, 1}\<rparr>))) = {0}"
  using cpu_disable_refusal [of "platform None (\<lambda>s. s)" 1 "kernel_init\<lparr>cpu_online_mask := {0, 1}\<rparr>"]
    cpu_disable_refusal
      [of "platform (Some ((test_ops 0 None)\<lparr>cpu_disable := Some (\<lambda>cpu. - 16)\<rparr>)) (\<lambda>s. s)" 1
          "kernel_init\<lparr>cpu_online_mask := {0, 1}\<rparr>"]
    cpu_disable_refusal
      [of "platform (Some (test_ops 0 None)) (\<lambda>s. s)" 1 "kernel_init\<lparr>cpu_online_mask := {0, 1}\<rparr>"]
  by (auto simp add: core_has_die_def op_cpu_disable_def platform_def test_ops_def EOPNOTSUPP_def
      kernel_init_def)

text \<open>
  C5, as the code has it. \<^verbatim>\<open>cpus_are_stuck_in_kernel\<close> is true exactly when the
  stuck-core counter is not zero, or more than one core is possible and the calling
  core (\<^verbatim>\<open>raw_smp_processor_id()\<close>) has no die operation in a build with
  \<^verbatim>\<open>CONFIG_HOTPLUG_CPU\<close>. In particular, in such a build it is false when no core is
  stuck and every possible core, the calling one among them, has a die operation.
\<close>

theorem stuck_query_calling_core:
  "cpus_are_stuck_in_kernel C E this_cpu s =
     (cpus_stuck_in_kernel s \<noteq> 0 \<or>
      (1 < card (cpu_possible_mask s) \<and> \<not> (CONFIG_HOTPLUG_CPU C \<and> core_has_die E this_cpu))) \<and>
   (CONFIG_HOTPLUG_CPU C \<and> cpus_stuck_in_kernel s = 0 \<and> this_cpu \<in> cpu_possible_mask s \<and>
    (\<forall>cpu \<in> cpu_possible_mask s. core_has_die E cpu) \<longrightarrow>
    \<not> cpus_are_stuck_in_kernel C E this_cpu s)"
  by (auto simp add: cpus_are_stuck_in_kernel_def have_cpu_die_def num_possible_cpus_def
      core_has_die_def Let_def split: option.splits)

text \<open>The theorem at two possible cores that both have a die operation.\<close>

theorem stuck_query_calling_core_witness:
  "CONFIG_HOTPLUG_CPU defconfig \<and>
   cpus_stuck_in_kernel (kernel_init\<lparr>cpu_possible_mask := {0, 1}\<rparr>) = 0 \<and>
   0 \<in> cpu_possible_mask (kernel_init\<lparr>cpu_possible_mask := {0, 1}\<rparr>) \<and>
   core_has_die (platform (Some (test_ops 0 None)) (\<lambda>s. s)) 0 \<and>
   core_has_die (platform (Some (test_ops 0 None)) (\<lambda>s. s)) 1 \<and>
   cpus_are_stuck_in_kernel defconfig (platform (Some (test_ops 0 None)) (\<lambda>s. s)) 0
     (kernel_init\<lparr>cpu_possible_mask := {0, 1}\<rparr>) = False"
  using stuck_query_calling_core
    [of defconfig "platform (Some (test_ops 0 None)) (\<lambda>s. s)" 0
        "kernel_init\<lparr>cpu_possible_mask := {0, 1}\<rparr>"]
  by (simp add: defconfig_def kernel_init_def core_has_die_def platform_def test_ops_def)

text \<open>
  C5 as stated fails: core 0, the caller, has no operations (the boot core may have
  none), core 1 has a die operation, no core is stuck. A die operation is available
  somewhere, so the claim's right-hand side is false, and the query returns true.
\<close>

theorem stuck_query_counterexample:
  "cpus_are_stuck_in_kernel defconfig
     ((platform None (\<lambda>s. s))
        \<lparr>cpu_ops := (\<lambda>cpu. if cpu = 0 then None else Some (test_ops 0 None))\<rparr>) 0
     (kernel_init\<lparr>cpu_possible_mask := {0, 1}\<rparr>) = True \<and>
   spec_cores_stuck
     ((platform None (\<lambda>s. s))
        \<lparr>cpu_ops := (\<lambda>cpu. if cpu = 0 then None else Some (test_ops 0 None))\<rparr>)
     (kernel_init\<lparr>cpu_possible_mask := {0, 1}\<rparr>) = False"
  by (simp add: cpus_are_stuck_in_kernel_def have_cpu_die_def num_possible_cpus_def
      spec_cores_stuck_def core_has_die_def defconfig_def kernel_init_def platform_def
      test_ops_def)

subsection \<open>Handling an IPI\<close>

text \<open>The loop that ends \<^verbatim>\<open>ipi_cpu_stop\<close> returns for no state.\<close>

lemma cpu_relax_loop_never_returns: "cpu_relax_loop s = None"
proof (cases "cpu_relax_loop s")
  case None
  then show ?thesis .
next
  case (Some t)
  have False
    by (rule cpu_relax_loop.raw_induct [where P = "\<lambda>x y. False", OF _ Some]) blast
  then show ?thesis ..
qed

lemma ipi_cpu_stop_never_returns: "ipi_cpu_stop cpu regs s = None"
  by (simp add: ipi_cpu_stop_def Let_def cpu_relax_loop_never_returns)

lemma IPI_distinct:
  "IPI_RESCHEDULE \<noteq> IPI_CPU_STOP" "IPI_CALL_FUNC \<noteq> IPI_CPU_STOP"
  "IPI_TIMER \<noteq> IPI_CPU_STOP" "IPI_IRQ_WORK \<noteq> IPI_CPU_STOP"
  "IPI_WAKEUP \<noteq> IPI_CPU_STOP" "IPI_CPU_BACKTRACE \<noteq> IPI_CPU_STOP"
  by (simp_all add: IPI_RESCHEDULE_def IPI_CALL_FUNC_def IPI_CPU_STOP_def IPI_TIMER_def
      IPI_IRQ_WORK_def IPI_WAKEUP_def IPI_CPU_BACKTRACE_def)

text \<open>
  C3, as the code has it. For every message number but \<^verbatim>\<open>IPI_CPU_STOP\<close>, also one
  that is no message kind, \<^verbatim>\<open>handle_IPI\<close> returns and the core's pending flag is
  clear when it does (the handlers it delegates to are taken to return, and the
  backtrace lock to be free). For \<^verbatim>\<open>IPI_CPU_STOP\<close> it never returns: the core
  spins in \<^verbatim>\<open>ipi_cpu_stop\<close>, and the statement that clears the flag is never reached.
\<close>

theorem handle_IPI_clears_pending_unless_stop:
  "(ipinr \<noteq> IPI_CPU_STOP \<longrightarrow>
      (\<exists>s'. handle_IPI C E cpu ipinr regs s = Some s' \<and> \<not> pending_ipi s' cpu)) \<and>
   handle_IPI C E cpu IPI_CPU_STOP regs s = None"
proof
  show "ipinr \<noteq> IPI_CPU_STOP \<longrightarrow>
      (\<exists>s'. handle_IPI C E cpu ipinr regs s = Some s' \<and> \<not> pending_ipi s' cpu)"
    by (simp add: handle_IPI_def Let_def)
  show "handle_IPI C E cpu IPI_CPU_STOP regs s = None"
    by (simp add: handle_IPI_def Let_def ipi_cpu_stop_never_returns IPI_distinct [symmetric])
qed

text \<open>
  The theorem at a backtrace message for core 1, whose pending flag is set and which
  is owed a backtrace.
\<close>

theorem handle_IPI_clears_pending_unless_stop_witness:
  "IPI_CPU_BACKTRACE \<noteq> IPI_CPU_STOP \<and>
   pending_ipi (kernel_init\<lparr>pending_ipi := (\<lambda>cpu. cpu = 1), backtrace_mask := {1}\<rparr>) 1 \<and>
   map_option (\<lambda>s'. (pending_ipi s' 1, backtrace_mask s'))
     (handle_IPI defconfig (platform None (\<lambda>s. s)) 1 IPI_CPU_BACKTRACE
        \<lparr>regs_sp = 0, regs_pc = 0\<rparr>
        (kernel_init\<lparr>pending_ipi := (\<lambda>cpu. cpu = 1), backtrace_mask := {1}\<rparr>))
     = Some (False, {})"
  using handle_IPI_clears_pending_unless_stop
    [of IPI_CPU_BACKTRACE defconfig "platform None (\<lambda>s. s)" 1 "\<lparr>regs_sp = 0, regs_pc = 0\<rparr>"
        "kernel_init\<lparr>pending_ipi := (\<lambda>cpu. cpu = 1), backtrace_mask := {1}\<rparr>"]
  by (auto simp add: handle_IPI_def Let_def ipi_cpu_backtrace_def pr_def kernel_init_def
      IPI_RESCHEDULE_def IPI_CALL_FUNC_def IPI_CPU_STOP_def IPI_TIMER_def
      IPI_IRQ_WORK_def IPI_WAKEUP_def IPI_CPU_BACKTRACE_def NR_IPI_def)

text \<open>
  C3 as stated fails for the Stop kind: core 1 has its pending flag set and handles
  \<^verbatim>\<open>IPI_CPU_STOP\<close>; the handler does not return.
\<close>

theorem handle_IPI_stop_counterexample:
  "pending_ipi (kernel_init\<lparr>pending_ipi := (\<lambda>cpu. cpu = 1)\<rparr>) 1 \<and>
   handle_IPI defconfig (platform None (\<lambda>s. s)) 1 IPI_CPU_STOP \<lparr>regs_sp = 0, regs_pc = 0\<rparr>
     (kernel_init\<lparr>pending_ipi := (\<lambda>cpu. cpu = 1)\<rparr>) = None"
  by (simp add: handle_IPI_def Let_def ipi_cpu_stop_never_returns IPI_distinct [symmetric]
      kernel_init_def)

subsection \<open>Broadcasts\<close>

text \<open>
  \<^verbatim>\<open>smp_cross_call_common\<close> sets the pending flag of every core of the mask (every
  bit below \<^verbatim>\<open>nr_cpu_ids\<close>) and hands the state with the flags set to one call of
  the primitive.
\<close>

lemma for_each_cpu_set_pending:
  "fold (\<lambda>cpu t. if cpu \<in> cpumask then t\<lparr>pending_ipi := (pending_ipi t)(cpu := True)\<rparr> else t)
     [0..<n] s
   = s\<lparr>pending_ipi := (\<lambda>cpu. cpu < n \<and> cpu \<in> cpumask \<or> pending_ipi s cpu)\<rparr>"
proof (induction n)
  case 0
  then show ?case by simp
next
  case (Suc n)
  have "(\<lambda>cpu. cpu < n \<and> cpu \<in> cpumask \<or> pending_ipi s cpu)(n := True) =
        (\<lambda>cpu. cpu < Suc n \<and> cpu \<in> cpumask \<or> pending_ipi s cpu)" if "n \<in> cpumask"
    using that by (auto simp add: fun_eq_iff less_Suc_eq)
  moreover have "(\<lambda>cpu. cpu < n \<and> cpu \<in> cpumask \<or> pending_ipi s cpu) =
        (\<lambda>cpu. cpu < Suc n \<and> cpu \<in> cpumask \<or> pending_ipi s cpu)" if "n \<notin> cpumask"
    using that by (auto simp add: fun_eq_iff less_Suc_eq)
  ultimately show ?case
    by (simp add: Suc.IH)
qed

lemma smp_cross_call_common_marks_then_calls:
  "smp_cross_call_common C cpumask func s =
     smp_cross_call cpumask func
       (s\<lparr>pending_ipi :=
            (\<lambda>cpu. cpu < min (nr_cpu_ids s) (NR_CPUS C) \<and> cpu \<in> cpumask \<or>
                   pending_ipi s cpu)\<rparr>)"
  by (simp add: smp_cross_call_common_def for_each_cpu_set_pending)

text \<open>The single-flight token and the bounded wait of the backtrace.\<close>

lemma test_and_set_bit_held: "bit w nr \<Longrightarrow> test_and_set_bit nr w = (True, w)"
proof -
  assume b: "bit w nr"
  have "set_bit nr w = w"
    by (rule bit_eqI) (auto simp add: bit_set_bit_iff b)
  with b show ?thesis
    by (simp add: test_and_set_bit_def)
qed

lemma test_and_set_bit_free: "\<not> bit w nr \<Longrightarrow> test_and_set_bit nr w = (False, set_bit nr w)"
  by (simp add: test_and_set_bit_def)

lemma backtrace_wait_bounded:
  "\<exists>n. n \<le> 10000 - i \<and> backtrace_wait E i s = (mdelay E ^^ n) s \<and>
       (n < 10000 - i \<longrightarrow> backtrace_mask ((mdelay E ^^ n) s) = {}) \<and>
       (\<forall>k<n. backtrace_mask ((mdelay E ^^ k) s) \<noteq> {})"
proof (induction E i s rule: backtrace_wait.induct)
  case (1 E i s)
  show ?case
  proof (cases "i < 10 * 1000 \<and> backtrace_mask s \<noteq> {}")
    case False
    then have "backtrace_wait E i s = s"
      by (auto simp add: backtrace_wait.simps [of E i s])
    with False show ?thesis
      by (intro exI [of _ 0]) auto
  next
    case True
    then obtain n where n: "n \<le> 10000 - Suc i"
      "backtrace_wait E (Suc i) (mdelay E s) = (mdelay E ^^ n) (mdelay E s)"
      "n < 10000 - Suc i \<longrightarrow> backtrace_mask ((mdelay E ^^ n) (mdelay E s)) = {}"
      "\<forall>k<n. backtrace_mask ((mdelay E ^^ k) (mdelay E s)) \<noteq> {}"
      using "1.IH" by auto
    have w: "backtrace_wait E i s = (mdelay E ^^ Suc n) s"
      using True n(2) by (simp add: backtrace_wait.simps [of E i s] funpow_swap1)
    have "\<forall>k<Suc n. backtrace_mask ((mdelay E ^^ k) s) \<noteq> {}"
    proof (intro allI impI)
      fix k assume "k < Suc n"
      then show "backtrace_mask ((mdelay E ^^ k) s) \<noteq> {}"
        using True n(4) by (cases k) (auto simp add: funpow_swap1)
    qed
    moreover have "Suc n < 10000 - i \<longrightarrow> backtrace_mask ((mdelay E ^^ Suc n) s) = {}"
      using n(3) by (auto simp add: funpow_swap1)
    moreover have "Suc n \<le> 10000 - i"
      using True n(1) by auto
    ultimately show ?thesis
      using w by blast
  qed
qed

lemma backtrace_wait_idle:
  "(\<And>t. mdelay E t = t) \<Longrightarrow> backtrace_wait E i s = s"
proof (induction E i s rule: backtrace_wait.induct)
  case (1 E i s)
  then show ?case
    by (simp add: backtrace_wait.simps [of E i s])
qed

text \<open>
  C9. Called with the token (bit 0 of \<^verbatim>\<open>backtrace_flag\<close>) set,
  \<^verbatim>\<open>smp_send_all_cpu_backtrace\<close> returns the state it was called in: the outstanding
  set is untouched and nothing is dumped. Called with the token clear, it reaches the
  wait in the state \<open>s1\<close>: token set, outstanding set the online cores but the caller,
  the caller's stack dumped, then the Backtrace message sent to the outstanding set
  by one cross call (no call when no other core is online). It then delays \<open>n\<close> times,
  at most \<open>10000\<close>, stopping before that only when the set is empty and never delaying
  when it is, and returns with the token clear.
\<close>

theorem backtrace_all_single_flight:
  "(bit (backtrace_flag s) 0 \<longrightarrow> smp_send_all_cpu_backtrace E this_cpu s = s) \<and>
   (\<not> bit (backtrace_flag s) 0 \<longrightarrow>
      (let others = cpu_online_mask s - {this_cpu};
           s1 = s\<lparr>backtrace_flag := set_bit 0 (backtrace_flag s),
                  backtrace_mask := others,
                  klog := klog s @
                    [Pr_backtrace_current this_cpu, Dump_stack this_cpu, Pr_sending_ipi] @
                    (if others \<noteq> {}
                     then [Trace_ipi_raise others IPI_CPU_BACKTRACE,
                           Smp_cross_call others IPI_CPU_BACKTRACE]
                     else [])\<rparr>
       in \<exists>n\<le>10000.
            smp_send_all_cpu_backtrace E this_cpu s =
              ((mdelay E ^^ n) s1)
                \<lparr>backtrace_flag := unset_bit 0 (backtrace_flag ((mdelay E ^^ n) s1))\<rparr> \<and>
            (n < 10000 \<longrightarrow> backtrace_mask ((mdelay E ^^ n) s1) = {}) \<and>
            (\<forall>k<n. backtrace_mask ((mdelay E ^^ k) s1) \<noteq> {}) \<and>
            \<not> bit (backtrace_flag (smp_send_all_cpu_backtrace E this_cpu s)) 0))"
proof (intro conjI impI)
  assume "bit (backtrace_flag s) 0"
  then show "smp_send_all_cpu_backtrace E this_cpu s = s"
    by (simp add: smp_send_all_cpu_backtrace_def test_and_set_bit_held)
next
  assume free: "\<not> bit (backtrace_flag s) 0"
  define others where "others = cpu_online_mask s - {this_cpu}"
  define s1 where "s1 = s\<lparr>backtrace_flag := set_bit 0 (backtrace_flag s),
                  backtrace_mask := others,
                  klog := klog s @
                    [Pr_backtrace_current this_cpu, Dump_stack this_cpu, Pr_sending_ipi] @
                    (if others \<noteq> {}
                     then [Trace_ipi_raise others IPI_CPU_BACKTRACE,
                           Smp_cross_call others IPI_CPU_BACKTRACE]
                     else [])\<rparr>"
  have run: "smp_send_all_cpu_backtrace E this_cpu s =
      (backtrace_wait E 0 s1)\<lparr>backtrace_flag := unset_bit 0 (backtrace_flag (backtrace_wait E 0 s1))\<rparr>"
    by (simp add: smp_send_all_cpu_backtrace_def test_and_set_bit_free [OF free] Let_def
        s1_def others_def smp_cross_call_def pr_def)
  obtain n where n: "n \<le> 10000" "backtrace_wait E 0 s1 = (mdelay E ^^ n) s1"
    "n < 10000 \<longrightarrow> backtrace_mask ((mdelay E ^^ n) s1) = {}"
    "\<forall>k<n. backtrace_mask ((mdelay E ^^ k) s1) \<noteq> {}"
    using backtrace_wait_bounded [of 0 E s1] by auto
  have "\<not> bit (backtrace_flag (smp_send_all_cpu_backtrace E this_cpu s)) 0"
    by (simp add: run bit_unset_bit_iff)
  with n run have "\<exists>n\<le>10000.
            smp_send_all_cpu_backtrace E this_cpu s =
              ((mdelay E ^^ n) s1)
                \<lparr>backtrace_flag := unset_bit 0 (backtrace_flag ((mdelay E ^^ n) s1))\<rparr> \<and>
            (n < 10000 \<longrightarrow> backtrace_mask ((mdelay E ^^ n) s1) = {}) \<and>
            (\<forall>k<n. backtrace_mask ((mdelay E ^^ k) s1) \<noteq> {}) \<and>
            \<not> bit (backtrace_flag (smp_send_all_cpu_backtrace E this_cpu s)) 0"
    by auto
  then show "let others = cpu_online_mask s - {this_cpu};
           s1 = s\<lparr>backtrace_flag := set_bit 0 (backtrace_flag s),
                  backtrace_mask := others,
                  klog := klog s @
                    [Pr_backtrace_current this_cpu, Dump_stack this_cpu, Pr_sending_ipi] @
                    (if others \<noteq> {}
                     then [Trace_ipi_raise others IPI_CPU_BACKTRACE,
                           Smp_cross_call others IPI_CPU_BACKTRACE]
                     else [])\<rparr>
       in \<exists>n\<le>10000.
            smp_send_all_cpu_backtrace E this_cpu s =
              ((mdelay E ^^ n) s1)
                \<lparr>backtrace_flag := unset_bit 0 (backtrace_flag ((mdelay E ^^ n) s1))\<rparr> \<and>
            (n < 10000 \<longrightarrow> backtrace_mask ((mdelay E ^^ n) s1) = {}) \<and>
            (\<forall>k<n. backtrace_mask ((mdelay E ^^ k) s1) \<noteq> {}) \<and>
            \<not> bit (backtrace_flag (smp_send_all_cpu_backtrace E this_cpu s)) 0"
    unfolding Let_def s1_def others_def .
qed

text \<open>
  The theorem at a call that finds the token set, and at a call on core 0 with cores
  0 and 1 online, core 1 answering during the first delay.
\<close>

theorem backtrace_all_single_flight_witness:
  "bit (backtrace_flag (kernel_init\<lparr>backtrace_flag := 1, backtrace_mask := {2}\<rparr>)) 0 \<and>
   smp_send_all_cpu_backtrace (platform None (\<lambda>s. s)) 0
     (kernel_init\<lparr>backtrace_flag := 1, backtrace_mask := {2}\<rparr>)
     = kernel_init\<lparr>backtrace_flag := 1, backtrace_mask := {2}\<rparr> \<and>
   \<not> bit (backtrace_flag (kernel_init\<lparr>cpu_online_mask := {0, 1}\<rparr>)) 0 \<and>
   smp_send_all_cpu_backtrace
     ((platform None (\<lambda>s. s))\<lparr>mdelay := ipi_cpu_backtrace 1 \<lparr>regs_sp = 0, regs_pc = 0\<rparr>\<rparr>) 0
     (kernel_init\<lparr>cpu_online_mask := {0, 1}\<rparr>)
     = kernel_init\<lparr>cpu_online_mask := {0, 1}, backtrace_mask := {}, backtrace_flag := 0,
         klog := [Pr_backtrace_current 0, Dump_stack 0, Pr_sending_ipi,
                  Trace_ipi_raise {1} IPI_CPU_BACKTRACE, Smp_cross_call {1} IPI_CPU_BACKTRACE,
                  Pr_ipi_backtrace 1, Show_regs \<lparr>regs_sp = 0, regs_pc = 0\<rparr>]\<rparr> \<and>
   \<not> bit (backtrace_flag (smp_send_all_cpu_backtrace
     ((platform None (\<lambda>s. s))\<lparr>mdelay := ipi_cpu_backtrace 1 \<lparr>regs_sp = 0, regs_pc = 0\<rparr>\<rparr>) 0
     (kernel_init\<lparr>cpu_online_mask := {0, 1}\<rparr>))) 0"
proof -
  have held: "bit (backtrace_flag (kernel_init\<lparr>backtrace_flag := 1, backtrace_mask := {2}\<rparr>)) 0"
    by simp
  have unchanged: "smp_send_all_cpu_backtrace (platform None (\<lambda>s. s)) 0
     (kernel_init\<lparr>backtrace_flag := 1, backtrace_mask := {2}\<rparr>)
     = kernel_init\<lparr>backtrace_flag := 1, backtrace_mask := {2}\<rparr>"
    using backtrace_all_single_flight
      [of "kernel_init\<lparr>backtrace_flag := 1, backtrace_mask := {2}\<rparr>" "platform None (\<lambda>s. s)" 0]
      held
    by blast
  have free: "\<not> bit (backtrace_flag (kernel_init\<lparr>cpu_online_mask := {0, 1}\<rparr>)) 0"
    by (simp add: kernel_init_def)
  have run: "smp_send_all_cpu_backtrace
     ((platform None (\<lambda>s. s))\<lparr>mdelay := ipi_cpu_backtrace 1 \<lparr>regs_sp = 0, regs_pc = 0\<rparr>\<rparr>) 0
     (kernel_init\<lparr>cpu_online_mask := {0, 1}\<rparr>)
     = kernel_init\<lparr>cpu_online_mask := {0, 1}, backtrace_mask := {}, backtrace_flag := 0,
         klog := [Pr_backtrace_current 0, Dump_stack 0, Pr_sending_ipi,
                  Trace_ipi_raise {1} IPI_CPU_BACKTRACE, Smp_cross_call {1} IPI_CPU_BACKTRACE,
                  Pr_ipi_backtrace 1, Show_regs \<lparr>regs_sp = 0, regs_pc = 0\<rparr>]\<rparr>"
    by (simp add: smp_send_all_cpu_backtrace_def test_and_set_bit_def smp_cross_call_def pr_def
        ipi_cpu_backtrace_def platform_def kernel_init_def Let_def backtrace_wait.simps
        set_bit_0 unset_bit_0)
  have released: "\<not> bit (backtrace_flag (smp_send_all_cpu_backtrace
     ((platform None (\<lambda>s. s))\<lparr>mdelay := ipi_cpu_backtrace 1 \<lparr>regs_sp = 0, regs_pc = 0\<rparr>\<rparr>) 0
     (kernel_init\<lparr>cpu_online_mask := {0, 1}\<rparr>))) 0"
    using backtrace_all_single_flight
      [of "kernel_init\<lparr>cpu_online_mask := {0, 1}\<rparr>"
          "(platform None (\<lambda>s. s))\<lparr>mdelay := ipi_cpu_backtrace 1 \<lparr>regs_sp = 0, regs_pc = 0\<rparr>\<rparr>" 0,
       unfolded Let_def]
      free
    by blast
  from held unchanged free run released show ?thesis
    by blast
qed

text \<open>
  C4 at the Backtrace broadcast. Cores 0 and 1 are online, no flag is pending, core 0
  calls \<^verbatim>\<open>smp_send_all_cpu_backtrace\<close> and core 1 never answers: the primitive is
  called with the mask \<open>{1}\<close> and the Backtrace message, and the pending flag of core
  1 is still clear afterwards. \<^verbatim>\<open>smp_cross_call_common\<close> with the same mask and
  message, the path every other sender takes, sets it.
\<close>

theorem backtrace_ipi_leaves_pending_flag:
  "pending_ipi (kernel_init\<lparr>cpu_online_mask := {0, 1}\<rparr>) 1 = False \<and>
   klog (smp_send_all_cpu_backtrace (platform None (\<lambda>s. s)) 0
           (kernel_init\<lparr>cpu_online_mask := {0, 1}\<rparr>))
     = [Pr_backtrace_current 0, Dump_stack 0, Pr_sending_ipi,
        Trace_ipi_raise {1} IPI_CPU_BACKTRACE, Smp_cross_call {1} IPI_CPU_BACKTRACE] \<and>
   pending_ipi (smp_send_all_cpu_backtrace (platform None (\<lambda>s. s)) 0
                  (kernel_init\<lparr>cpu_online_mask := {0, 1}\<rparr>)) 1 = False \<and>
   klog (smp_cross_call_common defconfig {1} IPI_CPU_BACKTRACE
           (kernel_init\<lparr>cpu_online_mask := {0, 1}\<rparr>))
     = [Trace_ipi_raise {1} IPI_CPU_BACKTRACE, Smp_cross_call {1} IPI_CPU_BACKTRACE] \<and>
   pending_ipi (smp_cross_call_common defconfig {1} IPI_CPU_BACKTRACE
                  (kernel_init\<lparr>cpu_online_mask := {0, 1}\<rparr>)) 1 = True"
proof -
  have idle: "mdelay (platform None (\<lambda>s. s)) t = t" for t
    by (simp add: platform_def)
  show ?thesis
    by (simp add: smp_send_all_cpu_backtrace_def test_and_set_bit_def smp_cross_call_def pr_def
        kernel_init_def Let_def backtrace_wait_idle [OF idle]
        smp_cross_call_common_marks_then_calls defconfig_def)
qed

end
